theory Spec2Isabelle
  imports Main
begin

section \<open>Data model (frontend/types.ts)\<close>

datatype TaskStatus = IDLE | RUNNING | STOPPED | STARTING

datatype NodeGroup = NODE1 | NODE2

record CheckDetail =
  name :: string
  passed :: bool
  message :: string

datatype CheckStatus = PASS | FAIL | ERROR

text \<open>The field \<open>status\<close> of a check result is written \<open>result_status\<close>, since a task has a
  field \<open>status\<close> of its own; the field \<open>id\<close> of a task is written \<open>task_id\<close>.\<close>

record CheckResult =
  result_status :: CheckStatus
  summary :: string
  details :: "CheckDetail list"
  timestamp :: string

record Task =
  task_id :: nat
  node :: NodeGroup
  title :: string
  instructions :: string
  status :: TaskStatus
  lastCheck :: "CheckResult option"

record DockerStatus =
  available :: bool
  version :: "string option"
  error :: "string option"

section \<open>Numbers in template strings\<close>

text \<open>A JavaScript template literal renders an integer in decimal, without leading zeros.\<close>

definition digit_char :: "nat \<Rightarrow> char" where
  "digit_char d = ''0123456789'' ! d"

function show_nat :: "nat \<Rightarrow> string" where
  "show_nat n =
     (if n < 10 then [digit_char n] else show_nat (n div 10) @ [digit_char (n mod 10)])"
  by pat_completeness auto
termination
  by (relation "measure (\<lambda>n. n)") auto

text \<open>The equation of \<open>show_nat\<close> rewrites \<open>show_nat\<close> to itself, so it is not a default
  simplification rule.\<close>

declare show_nat.simps [simp del]

definition show_int :: "int \<Rightarrow> string" where
  "show_int i = (if i < 0 then CHR ''-'' # show_nat (nat (- i)) else show_nat (nat i))"

section \<open>The exercise catalog (frontend/constants.tsx)\<close>

definition INITIAL_TASKS :: "Task list" where
  \<open>INITIAL_TASKS = [
    \<lparr> task_id = 1, node = NODE1, title = ''Network Configuration'',
      instructions = ''Configure the network interface with IP address 192.168.122.10/24, gateway 192.168.122.1, and DNS 8.8.8.8. Set hostname to node1.example.com.'',
      status = IDLE, lastCheck = None \<rparr>,
    \<lparr> task_id = 2, node = NODE1, title = ''BaseOS/AppStream Repos'',
      instructions = ''Configure local yum repositories for BaseOS and AppStream. Use /mnt/BaseOS and /mnt/AppStream as sources.'',
      status = IDLE, lastCheck = None \<rparr>,
    \<lparr> task_id = 3, node = NODE1, title = ''SELinux Web Port'',
      instructions = ''Configure the Apache web server to run on port 82. Ensure SELinux allows this port.'',
      status = IDLE, lastCheck = None \<rparr>,
    \<lparr> task_id = 4, node = NODE1, title = ''Users & Group Creation'',
      instructions = ''Create a group named 'sysadmin'. Create users 'alice' and 'bob', and add them to the 'sysadmin' group.'',
      status = IDLE, lastCheck = None \<rparr>,
    \<lparr> task_id = 5, node = NODE1, title = ''Shared Directory'',
      instructions = ''Create a directory /home/shared. Ensure it is owned by the group 'sysadmin' and has g+rwx permissions. Implement setgid.'',
      status = IDLE, lastCheck = None \<rparr>,
    \<lparr> task_id = 6, node = NODE1, title = ''autofs NFS'',
      instructions = ''Configure autofs to automatically mount an NFS export from server.example.com:/export/home to /rhome/remote_user.'',
      status = IDLE, lastCheck = None \<rparr>,
    \<lparr> task_id = 7, node = NODE1, title = ''Cron Job'',
      instructions = ''Create a cron job for user 'alice' that runs 'logger "Hello World"' every day at 14:23.'',
      status = IDLE, lastCheck = None \<rparr>,
    \<lparr> task_id = 8, node = NODE1, title = ''NTP Client'',
      instructions = ''Configure chronyd to sync with pool.ntp.org.'',
      status = IDLE, lastCheck = None \<rparr>,
    \<lparr> task_id = 9, node = NODE1, title = ''Find Files by Owner'',
      instructions = ''Find all files owned by user 'alice' in /etc and copy them to /root/alice_files/.'',
      status = IDLE, lastCheck = None \<rparr>,
    \<lparr> task_id = 10, node = NODE1, title = ''Find Strings'',
      instructions = ''Search for all lines containing 'rhcsa' in /usr/share/dict/words and save them to /root/lines.txt.'',
      status = IDLE, lastCheck = None \<rparr>,
    \<lparr> task_id = 11, node = NODE1, title = ''User with UID'',
      instructions = ''Create a user 'charlie' with UID 2000.'',
      status = IDLE, lastCheck = None \<rparr>,
    \<lparr> task_id = 12, node = NODE1, title = ''Archive Creation'',
      instructions = ''Create a bzip2 compressed tar archive of /etc named /root/etc.tar.bz2.'',
      status = IDLE, lastCheck = None \<rparr>,
    \<lparr> task_id = 13, node = NODE1, title = ''Container Service'',
      instructions = ''Run a podman container using the 'nginx' image and configure it as a systemd user service for user 'alice'.'',
      status = IDLE, lastCheck = None \<rparr>,
    \<lparr> task_id = 14, node = NODE1, title = ''Default Permissions'',
      instructions = ''Set the umask for all new users to 007.'',
      status = IDLE, lastCheck = None \<rparr>,
    \<lparr> task_id = 15, node = NODE2, title = ''Root Password'',
      instructions = ''Reset the root password to 'redhat'.'',
      status = IDLE, lastCheck = None \<rparr>,
    \<lparr> task_id = 16, node = NODE2, title = ''Repositories'',
      instructions = ''Configure YUM repositories for NODE2 using the provided URL.'',
      status = IDLE, lastCheck = None \<rparr>,
    \<lparr> task_id = 17, node = NODE2, title = ''Resize LV'',
      instructions = ''Resize the logical volume 'vo' to 300MB without losing data.'',
      status = IDLE, lastCheck = None \<rparr>,
    \<lparr> task_id = 18, node = NODE2, title = ''Swap Creation'',
      instructions = ''Add a 512MB swap partition to the system and ensure it persists across reboots.'',
      status = IDLE, lastCheck = None \<rparr>,
    \<lparr> task_id = 19, node = NODE2, title = ''Create LV'',
      instructions = ''Create a logical volume named 'data' in volume group 'vg0' with a size of 10 extents.'',
      status = IDLE, lastCheck = None \<rparr>,
    \<lparr> task_id = 20, node = NODE2, title = ''tuned profile'',
      instructions = ''Set the system tuned profile to 'virtual-guest'.'',
      status = IDLE, lastCheck = None \<rparr>
  ]\<close>

section \<open>The API client (frontend/services/dockerService.ts)\<close>

datatype http_method = GET | POST

datatype request = Request http_method string

text \<open>An awaited promise either resolves to a value or rejects; a rejection is thrown at the
  \<open>await\<close>.\<close>

datatype 'a promise = Resolved 'a | Rejected

text \<open>What \<open>fetch\<close> resolves to: the flag \<open>res.ok\<close> and the promise \<open>res.json()\<close>.\<close>

record 'a response =
  res_ok :: bool
  json :: "'a promise"

text \<open>The body of a lifecycle reply, \<open>{ok, status}\<close>.\<close>

record lifecycle_body =
  ok :: bool
  reply_status :: string

text \<open>The server is what answers a request. \<open>fetch\<close> is untyped in the source and each caller
  casts the body to the type it expects, so the server has one answer per expected type. A body
  that is JSON \<open>null\<close> is \<open>None\<close>.\<close>

record server =
  status_reply :: "request \<Rightarrow> DockerStatus response promise"
  tasks_reply :: "request \<Rightarrow> Task list response promise"
  lifecycle_reply :: "request \<Rightarrow> lifecycle_body option response promise"
  check_reply :: "request \<Rightarrow> CheckResult option response promise"

text \<open>A computation that issues requests threads the log of the requests sent so far.\<close>

type_synonym 'a io = "request list \<Rightarrow> 'a \<times> request list"

definition fetch :: "(request \<Rightarrow> 'a) \<Rightarrow> request \<Rightarrow> 'a io" where
  "fetch reply r log = (reply r, log @ [r])"

definition API :: string where
  "API = []"

text \<open>\<open>const data = await res.json(); return data\<close>, after \<open>const res = await fetch(..)\<close>.\<close>

definition body_of :: "'a response promise \<Rightarrow> 'a promise" where
  "body_of p = (case p of Rejected \<Rightarrow> Rejected | Resolved res \<Rightarrow> json res)"

text \<open>\<open>const data = await res.json(); return res.ok && data?.ok === true\<close>.\<close>

definition ok_of :: "lifecycle_body option response promise \<Rightarrow> bool promise" where
  "ok_of p =
     (case p of
        Rejected \<Rightarrow> Rejected
      | Resolved res \<Rightarrow>
          (case json res of
             Rejected \<Rightarrow> Rejected
           | Resolved data \<Rightarrow>
               Resolved (res_ok res \<and> (case data of None \<Rightarrow> False | Some d \<Rightarrow> ok d))))"

definition getDockerStatus :: "server \<Rightarrow> DockerStatus promise io" where
  "getDockerStatus srv log =
     (let (res, log') = fetch (status_reply srv) (Request GET (API @ ''/api/docker/status'')) log
      in (body_of res, log'))"

definition getTasks :: "server \<Rightarrow> Task list promise io" where
  "getTasks srv log =
     (let (res, log') = fetch (tasks_reply srv) (Request GET (API @ ''/api/tasks'')) log
      in (body_of res, log'))"

definition startContainer :: "server \<Rightarrow> nat \<Rightarrow> bool promise io" where
  "startContainer srv taskId log =
     (let (res, log') =
        fetch (lifecycle_reply srv)
          (Request POST (API @ ''/api/task/'' @ show_nat taskId @ ''/start'')) log
      in (ok_of res, log'))"

definition stopContainer :: "server \<Rightarrow> nat \<Rightarrow> bool promise io" where
  "stopContainer srv taskId log =
     (let (res, log') =
        fetch (lifecycle_reply srv)
          (Request POST (API @ ''/api/task/'' @ show_nat taskId @ ''/stop'')) log
      in (ok_of res, log'))"

definition resetContainer :: "server \<Rightarrow> nat \<Rightarrow> bool promise io" where
  "resetContainer srv taskId log =
     (let (res, log') =
        fetch (lifecycle_reply srv)
          (Request POST (API @ ''/api/task/'' @ show_nat taskId @ ''/reset'')) log
      in (ok_of res, log'))"

definition checkTask :: "server \<Rightarrow> nat \<Rightarrow> CheckResult option promise io" where
  "checkTask srv taskId log =
     (let (res, log') =
        fetch (check_reply srv)
          (Request POST (API @ ''/api/task/'' @ show_nat taskId @ ''/check'')) log
      in (body_of res, log'))"

section \<open>The application state and its task actions (frontend/App.tsx)\<close>

record App =
  tasks :: "Task list"
  activeTaskId :: "nat option"
  dockerStatus :: "DockerStatus option"
  isLoading :: bool
  terminalClearKey :: nat

datatype action = Start | Stop | Reset | Check

text \<open>\<open>dockerStatus?.available\<close>: false when the status is still \<open>null\<close>.\<close>

definition docker_available :: "App \<Rightarrow> bool" where
  "docker_available st = (case dockerStatus st of None \<Rightarrow> False | Some d \<Rightarrow> available d)"

text \<open>The local variables of \<open>handleTaskAction\<close> when the \<open>try\<close> block is left.\<close>

record outcome =
  success :: bool
  newStatus :: TaskStatus
  checkResult :: "CheckResult option"

text \<open>The \<open>try { switch (action) .. } catch\<close> block. The variables start as \<open>false\<close>,
  \<open>IDLE\<close> and \<open>null\<close>; a rejected request is thrown at its \<open>await\<close>, before any of them is
  assigned, and the \<open>catch\<close> sets \<open>success = false\<close>.\<close>

definition run_action :: "server \<Rightarrow> nat \<Rightarrow> action \<Rightarrow> outcome io" where
  "run_action srv taskId a log =
     (let thrown = \<lparr> success = False, newStatus = IDLE, checkResult = None \<rparr> in
      case a of
        Start \<Rightarrow>
          (let (r, log') = startContainer srv taskId log in
           (case r of
              Rejected \<Rightarrow> thrown
            | Resolved b \<Rightarrow>
                \<lparr> success = b, newStatus = (if b then RUNNING else IDLE), checkResult = None \<rparr>,
            log'))
      | Stop \<Rightarrow>
          (let (r, log') = stopContainer srv taskId log in
           (case r of
              Rejected \<Rightarrow> thrown
            | Resolved b \<Rightarrow> \<lparr> success = b, newStatus = STOPPED, checkResult = None \<rparr>,
            log'))
      | Reset \<Rightarrow>
          (let (r, log') = resetContainer srv taskId log in
           (case r of
              Rejected \<Rightarrow> thrown
            | Resolved b \<Rightarrow>
                \<lparr> success = b, newStatus = (if b then RUNNING else IDLE), checkResult = None \<rparr>,
            log'))
      | Check \<Rightarrow>
          (let (r, log') = checkTask srv taskId log in
           (case r of
              Rejected \<Rightarrow> thrown
            | Resolved c \<Rightarrow> \<lparr> success = True, newStatus = RUNNING, checkResult = c \<rparr>,
            log')))"

text \<open>The first \<open>setTasks\<close>: the task of that id shows the loading state.\<close>

definition mark_starting :: "nat \<Rightarrow> Task list \<Rightarrow> Task list" where
  "mark_starting taskId prev =
     map (\<lambda>t. if task_id t = taskId then t\<lparr>status := STARTING\<rparr> else t) prev"

text \<open>The last \<open>setTasks\<close>; \<open>checkResult || t.lastCheck\<close> keeps the old result when
  \<open>checkResult\<close> is \<open>null\<close>.\<close>

definition settle :: "nat \<Rightarrow> outcome \<Rightarrow> Task list \<Rightarrow> Task list" where
  "settle taskId out prev =
     map (\<lambda>t. if task_id t = taskId
              then t\<lparr>status := newStatus out,
                     lastCheck := (case checkResult out of Some c \<Rightarrow> Some c | None \<Rightarrow> lastCheck t)\<rparr>
              else t) prev"

text \<open>\<open>handleTaskAction\<close> returns the states it sets, in order: the one rendered while the
  request is awaited and the one after it; none when the engine is not available.\<close>

definition handleTaskAction :: "server \<Rightarrow> nat \<Rightarrow> action \<Rightarrow> App \<Rightarrow> App list io" where
  "handleTaskAction srv taskId a st log =
     (if \<not> docker_available st then ([], log)
      else
        let st1 = (if a = Start \<or> a = Stop \<or> a = Reset
                   then st\<lparr>terminalClearKey := terminalClearKey st + 1\<rparr> else st);
            st2 = st1\<lparr>tasks := mark_starting taskId (tasks st1)\<rparr>;
            (out, log') = run_action srv taskId a log;
            st3 = st2\<lparr>tasks := settle taskId out (tasks st2)\<rparr>
        in ([st2, st3], log'))"

text \<open>The state the application is in after the action: the last state set, or the state
  before when none was set.\<close>

definition final :: "App \<Rightarrow> App list \<Rightarrow> App" where
  "final st trace = last (st # trace)"

text \<open>The effect run once when the application is mounted: both requests are issued
  (\<open>Promise.all\<close>); if either is rejected the engine is recorded as not available and the
  task list as empty. \<open>activeTaskId\<close> starts as 1, so \<open>!activeTaskId\<close> holds for \<open>null\<close> and
  for 0 only.\<close>

definition init :: "server \<Rightarrow> App \<Rightarrow> App io" where
  "init srv st log =
     (let (s, log1) = getDockerStatus srv log;
          (l, log2) = getTasks srv log1
      in (case (s, l) of
            (Resolved ds, Resolved taskList) \<Rightarrow>
              st\<lparr>dockerStatus := Some ds, tasks := taskList,
                 activeTaskId :=
                   (if taskList \<noteq> [] \<and> (activeTaskId st = None \<or> activeTaskId st = Some 0)
                    then Some (task_id (hd taskList)) else activeTaskId st),
                 isLoading := False\<rparr>
          | _ \<Rightarrow>
              st\<lparr>dockerStatus :=
                   Some \<lparr> available = False, version = None, error = Some ''Failed to load'' \<rparr>,
                 tasks := [], isLoading := False\<rparr>,
          log2))"

section \<open>The terminal client (frontend/components/Terminal.tsx)\<close>

text \<open>Events the client emits on its socket, and events it listens for.\<close>

datatype client_event =
    terminal_connect nat
  | terminal_input nat string
  | terminal_resize nat nat nat

datatype server_event =
    terminal_output nat string
  | terminal_exit nat int
  | terminal_error nat string

text \<open>The \<open>taskId\<close> field of an incoming payload.\<close>

fun payload_taskId :: "server_event \<Rightarrow> nat" where
  "payload_taskId (terminal_output i d) = i"
| "payload_taskId (terminal_exit i c) = i"
| "payload_taskId (terminal_error i m) = i"

text \<open>The display is the sequence of calls made on the xterm instance.\<close>

datatype term_op = Write string | Writeln string | Clear

type_synonym xterm = "term_op list"

definition ESC :: string where
  "ESC = [CHR 0x1B]"

definition CRLF :: string where
  "CRLF = [CHR 0x0D, CHR 0x0A]"

text \<open>A socket created by \<open>io(..)\<close>: whether it is connected, and the \<open>taskId\<close> its listeners
  were registered with (\<open>None\<close> once the listeners are removed).\<close>

record Socket =
  connected :: bool
  listeners :: "nat option"

text \<open>The refs of the component, with the events emitted so far and the number of sockets
  opened so far.\<close>

record Terminal =
  xtermRef :: "xterm option"
  socketRef :: "Socket option"
  connectedTaskIdRef :: "nat option"
  activeTaskRef :: "Task option"
  emitted :: "client_event list"
  opened :: nat

text \<open>\<open>activeTask?.status === TaskStatus.RUNNING\<close>.\<close>

definition is_running :: "Task option \<Rightarrow> bool" where
  "is_running activeTask = (case activeTask of None \<Rightarrow> False | Some t \<Rightarrow> status t = RUNNING)"

text \<open>The effect that keeps \<open>activeTaskRef\<close> in step with the property.\<close>

definition sync_active :: "Task option \<Rightarrow> Terminal \<Rightarrow> Terminal" where
  "sync_active activeTask T = T\<lparr>activeTaskRef := activeTask\<rparr>"

text \<open>The \<open>term.onData\<close> callback: input typed into the terminal.\<close>

definition onData :: "string \<Rightarrow> Terminal \<Rightarrow> Terminal" where
  "onData data T =
     (case (if is_running (activeTaskRef T) then activeTaskRef T else None) of
        None \<Rightarrow>
          T\<lparr>xtermRef := map_option (\<lambda>term. term @
               [Writeln (CRLF @ ESC @ ''[31mTerminal inactive. Please START the task container.''
                         @ ESC @ ''[0m'')]) (xtermRef T)\<rparr>
      | Some currentTask \<Rightarrow>
          if (case socketRef T of None \<Rightarrow> False | Some s \<Rightarrow> connected s)
             \<and> connectedTaskIdRef T = Some (task_id currentTask)
          then T\<lparr>emitted := emitted T @ [terminal_input (task_id currentTask) data]\<rparr>
          else T\<lparr>xtermRef := map_option (\<lambda>term. term @
                    [Writeln (CRLF @ ESC @ ''[33mConnecting...'' @ ESC @ ''[0m'')]) (xtermRef T)\<rparr>)"

text \<open>The cleanup the connection effect returns when it has opened a socket.\<close>

definition connect_cleanup :: "Terminal \<Rightarrow> Terminal" where
  "connect_cleanup T = T\<lparr>socketRef := None, connectedTaskIdRef := None\<rparr>"

text \<open>The connection effect, run when the id or the status of the active task changes.\<close>

definition connect_effect :: "Task option \<Rightarrow> Terminal \<Rightarrow> Terminal" where
  "connect_effect activeTask T =
     (let taskId = map_option task_id activeTask;
          running = is_running activeTask
      in if \<not> running \<or> taskId = None
         then T\<lparr>socketRef := None, connectedTaskIdRef := None\<rparr>
         else T\<lparr>socketRef := Some \<lparr> connected = False, listeners = taskId \<rparr>,
                connectedTaskIdRef := taskId,
                opened := opened T + 1\<rparr>)"

text \<open>The socket reports that it is connected: the \<open>connect\<close> listener asks for the terminal
  of its task.\<close>

definition on_connect :: "Terminal \<Rightarrow> Terminal" where
  "on_connect T =
     (case socketRef T of
        None \<Rightarrow> T
      | Some s \<Rightarrow>
          (case listeners s of
             None \<Rightarrow> T\<lparr>socketRef := Some (s\<lparr>connected := True\<rparr>)\<rparr>
           | Some taskId \<Rightarrow>
               T\<lparr>socketRef := Some (s\<lparr>connected := True\<rparr>),
                 emitted := emitted T @ [terminal_connect taskId]\<rparr>))"

text \<open>The three listeners for incoming events, registered with the \<open>taskId\<close> of the effect
  that opened the socket. Each writes only when the payload carries that id and the xterm
  instance exists.\<close>

fun on_terminal_event :: "nat \<Rightarrow> server_event \<Rightarrow> xterm option \<Rightarrow> xterm option" where
  "on_terminal_event taskId (terminal_output i d) x =
     (case x of
        Some term \<Rightarrow> if i = taskId then Some (term @ [Write d]) else x
      | None \<Rightarrow> x)"
| "on_terminal_event taskId (terminal_exit i code) x =
     (case x of
        Some term \<Rightarrow>
          if i = taskId
          then Some (term @
                 [Writeln (CRLF @ ESC @ ''[33m[Process exited with code '' @ show_int code @ '']''
                           @ ESC @ ''[0m''),
                  Write ''[root@node1 ~]# ''])
          else x
      | None \<Rightarrow> x)"
| "on_terminal_event taskId (terminal_error i m) x =
     (case x of
        Some term \<Rightarrow>
          if i = taskId
          then Some (term @
                 [Writeln (CRLF @ ESC @ ''[31m[Error] '' @ m @ ESC @ ''[0m''),
                  Write ''[root@node1 ~]# ''])
          else x
      | None \<Rightarrow> x)"

text \<open>An event arriving on the socket reaches the listeners registered on it, if any.\<close>

definition receive :: "server_event \<Rightarrow> Terminal \<Rightarrow> Terminal" where
  "receive ev T =
     (case socketRef T of
        None \<Rightarrow> T
      | Some s \<Rightarrow>
          (case listeners s of
             None \<Rightarrow> T
           | Some taskId \<Rightarrow> T\<lparr>xtermRef := on_terminal_event taskId ev (xtermRef T)\<rparr>))"

text \<open>A session's display after a sequence of incoming events.\<close>

definition display_after :: "nat \<Rightarrow> server_event list \<Rightarrow> xterm option \<Rightarrow> xterm option" where
  "display_after taskId evs x = foldl (\<lambda>y ev. on_terminal_event taskId ev y) x evs"

text \<open>A render with a changed id or status of the active task: the ref is brought in step,
  the cleanup of the previous connection effect runs (it clears refs that a previous effect
  without a socket left empty anyway), then the connection effect runs.\<close>

definition rerender :: "Task option \<Rightarrow> Terminal \<Rightarrow> Terminal" where
  "rerender activeTask T = connect_effect activeTask (connect_cleanup (sync_active activeTask T))"

section \<open>The backend, as the specification describes it\<close>

text \<open>The backend (\<open>backend/app.py\<close>, \<open>backend/task_checkers.py\<close>) is not among the sources.
  What follows models the parts of it that the properties below are about.\<close>

subsection \<open>Container names\<close>

text \<open>Modelled from the spec: the function of \<open>backend/app.py\<close> that computes the name of an
  exercise's container, which is missing from the sources. The specification gives the name
  as \<open>task-<id>\<close>, computed from the exercise id; the id is rendered in decimal. (README.md,
  under Docker Configuration, documents the names with a longer prefix, \<open>rhcsa-task-<id>\<close>;
  the definition follows the specification.)\<close>

definition container_name :: "nat \<Rightarrow> string" where
  "container_name taskId = ''task-'' @ show_nat taskId"

subsection \<open>The checker engine\<close>

text \<open>Modelled from the spec: the checker engine \<open>runChecks\<close> of \<open>backend/task_checkers.py\<close>,
  which is missing from the sources. A probe runs a command inside the container and yields a
  verdict with a message, or cannot be executed at all.\<close>

datatype probe_outcome = Verdict bool string | ProbeTimeout | ProbeExecFailed

record 'c Probe =
  probe_name :: string
  probe_run :: "'c \<Rightarrow> probe_outcome"

text \<open>Modelled from the spec: a probe that cannot execute is recorded as a failed detail whose
  message identifies the failure.\<close>

definition run_check :: "'c \<Rightarrow> 'c Probe \<Rightarrow> CheckDetail" where
  "run_check container p =
     (case probe_run p container of
        Verdict b m \<Rightarrow> \<lparr> name = probe_name p, passed = b, message = m \<rparr>
      | ProbeTimeout \<Rightarrow> \<lparr> name = probe_name p, passed = False, message = ''ProbeTimeout'' \<rparr>
      | ProbeExecFailed \<Rightarrow>
          \<lparr> name = probe_name p, passed = False, message = ''ProbeExecFailed'' \<rparr>)"

text \<open>Modelled from the spec: the aggregation of the details of one check run; the status is
  PASS iff all probes passed, the summary reports \<open>k/n checks passed.\<close>, and the timestamp is
  the time of aggregation.\<close>

definition aggregate :: "string \<Rightarrow> CheckDetail list \<Rightarrow> CheckResult" where
  "aggregate now ds =
     \<lparr> result_status = (if list_all passed ds then PASS else FAIL),
       summary = show_nat (length (filter passed ds)) @ ''/'' @ show_nat (length ds)
                 @ '' checks passed.'',
       details = ds,
       timestamp = now \<rparr>"

text \<open>Modelled from the spec: \<open>runChecks(id)\<close>. Without a registered checker, or with a
  container that is not running, the result is ERROR with no details; otherwise the probes
  run in their declared order and are aggregated.\<close>

definition runChecks ::
  "(nat \<Rightarrow> 'c Probe list option) \<Rightarrow> (nat \<Rightarrow> bool) \<Rightarrow> 'c \<Rightarrow> string \<Rightarrow> nat \<Rightarrow> CheckResult" where
  "runChecks registry running container now taskId =
     (case registry taskId of
        None \<Rightarrow>
          \<lparr> result_status = ERROR, summary = ''NoChecker'', details = [], timestamp = now \<rparr>
      | Some probes \<Rightarrow>
          if \<not> running taskId
          then \<lparr> result_status = ERROR, summary = ''NotRunning'', details = [], timestamp = now \<rparr>
          else aggregate now (map (run_check container) probes))"

subsection \<open>The terminal session bridge\<close>

text \<open>Modelled from the spec: the session state machine of the terminal bridge in
  \<open>backend/app.py\<close>, which is missing from the sources. A session holds its state, the
  exercise whose shell process it has spawned, if any, and the events it has sent out.\<close>

datatype SessionState = Disconnected | Connecting | Attached | Closing

record Session =
  session_state :: SessionState
  process :: "nat option"
  outbound :: "server_event list"

text \<open>Modelled from the spec: an attach request for exercise X. If the status of X is not
  Running the bridge emits an error event and returns to Disconnected without spawning a
  process; otherwise a shell is spawned in the container of X and the session is Attached.\<close>

definition attach :: "(nat \<Rightarrow> TaskStatus) \<Rightarrow> nat \<Rightarrow> Session \<Rightarrow> Session" where
  "attach store X s =
     (if store X \<noteq> RUNNING
      then s\<lparr>session_state := Disconnected,
             outbound := outbound s @ [terminal_error X ''NotRunning'']\<rparr>
      else s\<lparr>session_state := Attached, process := Some X\<rparr>)"

section \<open>The interface the specification names\<close>

text \<open>The endpoints as the specification writes them: \<open>GET /engine/status\<close>,
  \<open>GET /exercises\<close> and \<open>POST /exercises/{id}/start|stop|reset|check\<close>, where \<open>{id}\<close> is a
  non-empty run of digits.\<close>

definition is_digit :: "char \<Rightarrow> bool" where
  "is_digit c = (c \<in> set ''0123456789'')"

fun strip_prefix :: "string \<Rightarrow> string \<Rightarrow> string option" where
  "strip_prefix [] s = Some s"
| "strip_prefix (p # ps) [] = None"
| "strip_prefix (p # ps) (c # cs) = (if p = c then strip_prefix ps cs else None)"

definition spec_interface :: "request \<Rightarrow> bool" where
  "spec_interface r =
     (case r of
        Request GET path \<Rightarrow> path = ''/engine/status'' \<or> path = ''/exercises''
      | Request POST path \<Rightarrow>
          (case strip_prefix ''/exercises/'' path of
             None \<Rightarrow> False
           | Some rest \<Rightarrow>
               takeWhile is_digit rest \<noteq> []
               \<and> dropWhile is_digit rest \<in> set [''/start'', ''/stop'', ''/reset'', ''/check'']))"

text \<open>The fields of a task that make up its catalog record.\<close>

definition catalog_record :: "Task \<Rightarrow> nat \<times> NodeGroup \<times> string \<times> string" where
  "catalog_record t = (task_id t, node t, title t, instructions t)"

section \<open>Sample values\<close>

definition sample_result :: CheckResult where
  "sample_result =
     \<lparr> result_status = PASS, summary = ''2/2 checks passed.'',
       details = [\<lparr> name = ''Hostname'', passed = True, message = ''Hostname is set'' \<rparr>,
                  \<lparr> name = ''IP configuration'', passed = True, message = ''IP is set'' \<rparr>],
       timestamp = ''2026-02-01T09:33:08.312863+00:00'' \<rparr>"

text \<open>A server that accepts every lifecycle request and answers every check with
  \<open>sample_result\<close>.\<close>

definition good_server :: server where
  "good_server =
     \<lparr> status_reply = (\<lambda>r. Resolved \<lparr> res_ok = True,
          json = Resolved \<lparr> available = True, version = Some ''29.1.5'', error = None \<rparr> \<rparr>),
       tasks_reply = (\<lambda>r. Resolved \<lparr> res_ok = True, json = Resolved INITIAL_TASKS \<rparr>),
       lifecycle_reply = (\<lambda>r. Resolved \<lparr> res_ok = True,
          json = Resolved (Some \<lparr> ok = True, reply_status = ''running'' \<rparr>) \<rparr>),
       check_reply = (\<lambda>r. Resolved \<lparr> res_ok = True, json = Resolved (Some sample_result) \<rparr>) \<rparr>"

text \<open>A server whose engine refuses every lifecycle request.\<close>

definition failing_server :: server where
  "failing_server =
     good_server\<lparr> lifecycle_reply := (\<lambda>r. Resolved \<lparr> res_ok = False,
        json = Resolved (Some \<lparr> ok = False, reply_status = ''idle'' \<rparr>) \<rparr>) \<rparr>"

definition sample_task :: "TaskStatus \<Rightarrow> Task" where
  "sample_task s =
     \<lparr> task_id = 1, node = NODE1, title = ''Network Configuration'',
       instructions = ''Set hostname to node1.example.com.'', status = s, lastCheck = None \<rparr>"

definition other_task :: Task where
  "other_task =
     \<lparr> task_id = 2, node = NODE1, title = ''BaseOS/AppStream Repos'',
       instructions = ''Configure local yum repositories.'', status = STOPPED,
       lastCheck = Some sample_result \<rparr>"

text \<open>An application with two tasks, the first in the given status, and the engine
  available or not.\<close>

definition sample_app :: "TaskStatus \<Rightarrow> bool \<Rightarrow> App" where
  "sample_app s avail =
     \<lparr> tasks = [sample_task s, other_task], activeTaskId = Some 1,
       dockerStatus = Some \<lparr> available = avail, version = None, error = None \<rparr>,
       isLoading = False, terminalClearKey = 0 \<rparr>"

definition sample_terminal :: "Task option \<Rightarrow> Terminal" where
  "sample_terminal t =
     \<lparr> xtermRef = Some [], socketRef = None, connectedTaskIdRef = None, activeTaskRef = t,
       emitted = [], opened = 0 \<rparr>"

definition sample_probes :: "unit Probe list" where
  "sample_probes =
     [\<lparr> probe_name = ''Hostname'', probe_run = (\<lambda>c. Verdict True ''Hostname is set'') \<rparr>,
      \<lparr> probe_name = ''IP configuration'', probe_run = (\<lambda>c. Verdict False ''IP not set'') \<rparr>]"

section \<open>Task actions: what they change and what they leave alone\<close>

lemma mark_starting_lastCheck: "map lastCheck (mark_starting taskId ts) = map lastCheck ts"
  by (induction ts) (simp_all add: mark_starting_def)

lemma settle_lastCheck:
  "checkResult out = None \<Longrightarrow> map lastCheck (settle taskId out ts) = map lastCheck ts"
  by (induction ts) (simp_all add: settle_def)

lemma mark_starting_catalog:
  "map catalog_record (mark_starting taskId ts) = map catalog_record ts"
  by (induction ts) (simp_all add: mark_starting_def catalog_record_def)

lemma settle_catalog: "map catalog_record (settle taskId out ts) = map catalog_record ts"
  by (induction ts) (simp_all add: settle_def catalog_record_def)

lemma settle_mark_starting:
  "settle taskId out (mark_starting taskId ts) =
     map (\<lambda>t. if task_id t = taskId
              then t\<lparr>status := newStatus out,
                     lastCheck := (case checkResult out of Some c \<Rightarrow> Some c | None \<Rightarrow> lastCheck t)\<rparr>
              else t) ts"
  by (induction ts) (auto simp: settle_def mark_starting_def split: option.splits)

lemma run_action_lifecycle:
  "a \<noteq> Check \<Longrightarrow> checkResult (fst (run_action srv taskId a log)) = None"
  by (cases a)
     (simp_all add: run_action_def startContainer_def stopContainer_def resetContainer_def
        fetch_def split: promise.splits)

lemma run_action_Reset:
  "fst (run_action srv taskId Reset log) =
     (case fst (resetContainer srv taskId log) of
        Rejected \<Rightarrow> \<lparr> success = False, newStatus = IDLE, checkResult = None \<rparr>
      | Resolved b \<Rightarrow>
          \<lparr> success = b, newStatus = (if b then RUNNING else IDLE), checkResult = None \<rparr>)"
  by (simp add: run_action_def split: prod.splits)

lemma run_action_Check:
  "fst (run_action srv taskId Check log) =
     (case fst (checkTask srv taskId log) of
        Rejected \<Rightarrow> \<lparr> success = False, newStatus = IDLE, checkResult = None \<rparr>
      | Resolved c \<Rightarrow> \<lparr> success = True, newStatus = RUNNING, checkResult = c \<rparr>)"
  by (simp add: run_action_def split: prod.splits)

lemma handleTaskAction_gated:
  "\<not> docker_available st \<Longrightarrow> handleTaskAction srv taskId a st log = ([], log)"
  by (simp add: handleTaskAction_def)

lemma handleTaskAction_trace:
  "docker_available st \<Longrightarrow>
   fst (handleTaskAction srv taskId a st log) =
     (let st1 = (if a = Check then st else st\<lparr>terminalClearKey := terminalClearKey st + 1\<rparr>);
          st2 = st1\<lparr>tasks := mark_starting taskId (tasks st)\<rparr>
      in [st2, st2\<lparr>tasks := settle taskId (fst (run_action srv taskId a log))
                              (mark_starting taskId (tasks st))\<rparr>])"
  by (cases a) (simp_all add: handleTaskAction_def Let_def split: prod.splits)

lemma final_trace:
  "docker_available st \<Longrightarrow>
   tasks (final st (fst (handleTaskAction srv taskId a st log))) =
     settle taskId (fst (run_action srv taskId a log)) (mark_starting taskId (tasks st))"
  by (simp add: handleTaskAction_trace final_def Let_def)

text \<open>
  Claim C3, as amended. When the engine is available and the check request returns a result
  \<open>r\<close>, the check sets two states: first the exercise shows the loading status STARTING, its
  \<open>lastCheck\<close> still the old one; then it shows RUNNING with \<open>lastCheck\<close> replaced by \<open>r\<close>.
  Every other task and every other part of the state is as before.
\<close>

theorem check_replaces_lastCheck:
  assumes "docker_available st"
    and "fst (checkTask srv taskId log) = Resolved (Some r)"
  shows "fst (handleTaskAction srv taskId Check st log) =
           [st\<lparr>tasks := map (\<lambda>t. if task_id t = taskId then t\<lparr>status := STARTING\<rparr> else t)
                            (tasks st)\<rparr>,
            st\<lparr>tasks := map (\<lambda>t. if task_id t = taskId
                                  then t\<lparr>status := RUNNING, lastCheck := Some r\<rparr> else t)
                            (tasks st)\<rparr>]"
proof -
  have out: "fst (run_action srv taskId Check log)
               = \<lparr> success = True, newStatus = RUNNING, checkResult = Some r \<rparr>"
    by (simp add: run_action_Check assms(2))
  show ?thesis
    unfolding handleTaskAction_trace [OF assms(1)] Let_def out settle_mark_starting
    by (simp add: mark_starting_def)
qed

theorem check_replaces_lastCheck_witness:
  "docker_available (sample_app RUNNING True)
   \<and> fst (checkTask good_server 1 []) = Resolved (Some sample_result)
   \<and> map status (tasks (final (sample_app RUNNING True)
        (fst (handleTaskAction good_server 1 Check (sample_app RUNNING True) []))))
      = [RUNNING, STOPPED]
   \<and> map lastCheck (tasks (final (sample_app RUNNING True)
        (fst (handleTaskAction good_server 1 Check (sample_app RUNNING True) []))))
      = [Some sample_result, Some sample_result]"
  using check_replaces_lastCheck [of "sample_app RUNNING True" good_server 1 "[]" sample_result]
  by (simp add: docker_available_def sample_app_def sample_task_def other_task_def
        checkTask_def fetch_def body_of_def good_server_def final_def)

text \<open>The claim as stated fails: exercise 1 is RUNNING before the check, and the first state
  the check sets shows it as STARTING.\<close>

theorem check_status_counterexample:
  "map task_id (tasks (hd (fst (handleTaskAction good_server 1 Check
        (sample_app RUNNING True) [])))) = [1, 2]
   \<and> map status (tasks (sample_app RUNNING True)) = [RUNNING, STOPPED]
   \<and> map status (tasks (hd (fst (handleTaskAction good_server 1 Check
        (sample_app RUNNING True) [])))) = [STARTING, STOPPED]"
  by (simp add: handleTaskAction_def docker_available_def sample_app_def
        sample_task_def other_task_def run_action_def checkTask_def fetch_def body_of_def
        good_server_def mark_starting_def settle_def)

text \<open>
  Claim C6, as amended. With the engine available, a reset leaves every task as it was except
  the one reset, whatever its status before; that one ends RUNNING when the reset request
  succeeded (the response is ok and its body says \<open>ok: true\<close>) and IDLE otherwise.
\<close>

theorem reset_status:
  assumes "docker_available st"
  shows "tasks (final st (fst (handleTaskAction srv taskId Reset st log))) =
           map (\<lambda>t. if task_id t = taskId
                    then t\<lparr>status := (if fst (resetContainer srv taskId log) = Resolved True
                                       then RUNNING else IDLE)\<rparr>
                    else t) (tasks st)"
proof -
  define out where "out = fst (run_action srv taskId Reset log)"
  have st: "newStatus out =
              (if fst (resetContainer srv taskId log) = Resolved True then RUNNING else IDLE)"
    and cr: "checkResult out = None"
    unfolding out_def run_action_Reset by (simp_all split: promise.splits)
  show ?thesis
    unfolding final_trace [OF assms] out_def [symmetric] settle_mark_starting
    by (simp add: st cr)
qed

theorem reset_status_witness:
  "docker_available (sample_app STOPPED True)
   \<and> map status (tasks (final (sample_app STOPPED True)
        (fst (handleTaskAction good_server 1 Reset (sample_app STOPPED True) []))))
      = [RUNNING, STOPPED]"
  using reset_status [of "sample_app STOPPED True" good_server 1 "[]"]
  by (simp add: docker_available_def sample_app_def sample_task_def other_task_def
        resetContainer_def fetch_def ok_of_def good_server_def)

text \<open>The claim as stated fails: when the server refuses the reset, exercise 1, which was
  STOPPED, ends IDLE.\<close>

theorem reset_status_counterexample:
  "map task_id (tasks (final (sample_app STOPPED True)
        (fst (handleTaskAction failing_server 1 Reset (sample_app STOPPED True) [])))) = [1, 2]
   \<and> map status (tasks (final (sample_app STOPPED True)
        (fst (handleTaskAction failing_server 1 Reset (sample_app STOPPED True) []))))
      = [IDLE, STOPPED]"
  by (simp add: handleTaskAction_def final_def docker_available_def sample_app_def
        sample_task_def other_task_def run_action_def resetContainer_def fetch_def ok_of_def
        failing_server_def good_server_def mark_starting_def settle_def)

text \<open>
  Claim C8. When the engine is not reported available (the status is missing, or says
  \<open>available: false\<close>), a start, stop, reset or check sets no state and sends no request: the
  log of requests is as before and the application is in the state it was in.
\<close>

theorem engine_unavailable_noop:
  assumes "\<not> docker_available st"
  shows "handleTaskAction srv taskId a st log = ([], log)
         \<and> final st (fst (handleTaskAction srv taskId a st log)) = st"
  using assms by (simp add: handleTaskAction_gated final_def)

theorem engine_unavailable_noop_witness:
  "\<not> docker_available (sample_app RUNNING False)
   \<and> handleTaskAction good_server 1 Check (sample_app RUNNING False) [] = ([], [])
   \<and> final (sample_app RUNNING False)
        (fst (handleTaskAction good_server 1 Check (sample_app RUNNING False) []))
      = sample_app RUNNING False"
  using engine_unavailable_noop [of "sample_app RUNNING False" good_server 1 Check "[]"]
  by (simp add: docker_available_def sample_app_def final_def)

text \<open>
  Claim C9. A start, stop or reset never changes a \<open>lastCheck\<close>: in every state the action
  sets, whether its request succeeds, fails or is rejected, each task has the \<open>lastCheck\<close> it
  had before. So only a check can replace it.
\<close>

theorem lifecycle_keeps_lastCheck:
  assumes "a \<noteq> Check"
  shows "\<forall>s \<in> set (fst (handleTaskAction srv taskId a st log)).
           map lastCheck (tasks s) = map lastCheck (tasks st)"
proof (cases "docker_available st")
  case False
  then show ?thesis by (simp add: handleTaskAction_gated)
next
  case True
  define out where "out = fst (run_action srv taskId a log)"
  have none: "checkResult out = None"
    unfolding out_def using assms by (rule run_action_lifecycle)
  have "map lastCheck (settle taskId out (mark_starting taskId (tasks st)))
          = map lastCheck (tasks st)"
    using none by (simp add: settle_lastCheck mark_starting_lastCheck)
  then show ?thesis
    unfolding handleTaskAction_trace [OF True] Let_def out_def [symmetric]
    by (simp add: mark_starting_lastCheck)
qed

theorem lifecycle_keeps_lastCheck_witness:
  "Stop \<noteq> Check
   \<and> map (\<lambda>s. map lastCheck (tasks s))
        (fst (handleTaskAction failing_server 2 Stop (sample_app RUNNING True) []))
      = [[None, Some sample_result], [None, Some sample_result]]"
proof -
  have avail: "docker_available (sample_app RUNNING True)"
    by (simp add: docker_available_def sample_app_def)
  obtain s1 s2
    where trace: "fst (handleTaskAction failing_server 2 Stop (sample_app RUNNING True) [])
                    = [s1, s2]"
    using handleTaskAction_trace [OF avail] by (simp add: Let_def)
  have "\<forall>s \<in> set [s1, s2].
          map lastCheck (tasks s) = map lastCheck (tasks (sample_app RUNNING True))"
    using lifecycle_keeps_lastCheck [of Stop failing_server 2 "sample_app RUNNING True" "[]"]
    by (simp add: trace)
  then have "map (\<lambda>s. map lastCheck (tasks s)) [s1, s2]
               = [map lastCheck (tasks (sample_app RUNNING True)),
                  map lastCheck (tasks (sample_app RUNNING True))]"
    by simp
  then have "map (\<lambda>s. map lastCheck (tasks s))
               (fst (handleTaskAction failing_server 2 Stop (sample_app RUNNING True) []))
               = [map lastCheck (tasks (sample_app RUNNING True)),
                  map lastCheck (tasks (sample_app RUNNING True))]"
    by (simp only: trace)
  then show ?thesis
    by (simp add: sample_app_def sample_task_def other_task_def)
qed

section \<open>Decimal rendering and container names\<close>

lemma show_nat_small: "n < 10 \<Longrightarrow> show_nat n = [digit_char n]"
  by (subst show_nat.simps) simp

lemma show_nat_large:
  "\<not> n < 10 \<Longrightarrow> show_nat n = show_nat (n div 10) @ [digit_char (n mod 10)]"
  by (subst show_nat.simps) simp

lemma show_nat_nonempty: "show_nat n \<noteq> []"
  by (subst show_nat.simps) simp

lemma digit_char_inj:
  assumes "a < 10" and "b < 10" and "digit_char a = digit_char b"
  shows "a = b"
proof -
  have a: "a \<in> {0, 1, 2, 3, 4, 5, 6, 7, 8, 9}" using assms(1) by auto
  have b: "b \<in> {0, 1, 2, 3, 4, 5, 6, 7, 8, 9}" using assms(2) by auto
  show ?thesis using a b assms(3) by (auto simp: digit_char_def)
qed

lemma show_nat_inj: "show_nat n = show_nat m \<Longrightarrow> n = m"
proof (induction n arbitrary: m rule: show_nat.induct)
  case (1 n)
  show ?case
  proof (cases "n < 10")
    case small_n: True
    show ?thesis
    proof (cases "m < 10")
      case True
      with small_n "1.prems" show ?thesis
        by (simp add: show_nat_small digit_char_inj)
    next
      case False
      with small_n "1.prems" show_nat_nonempty [of "m div 10"] show ?thesis
        by (simp add: show_nat_small show_nat_large)
    qed
  next
    case large_n: False
    show ?thesis
    proof (cases "m < 10")
      case True
      with large_n "1.prems" show_nat_nonempty [of "n div 10"] show ?thesis
        by (simp add: show_nat_small show_nat_large)
    next
      case False
      with large_n "1.prems"
      have pre: "show_nat (n div 10) = show_nat (m div 10)"
        and dig: "digit_char (n mod 10) = digit_char (m mod 10)"
        by (simp_all add: show_nat_large)
      have "n div 10 = m div 10" using "1.IH" large_n pre by simp
      moreover have "n mod 10 = m mod 10" using dig by (simp add: digit_char_inj)
      ultimately show ?thesis by (metis div_mult_mod_eq)
    qed
  qed
qed

text \<open>
  Claim C4. The container of an exercise is named exactly \<open>task-<id>\<close>, the id in decimal;
  the name is computed from the id alone, so equal ids give equal names, and different ids
  give different names.
\<close>

theorem container_name_unique:
  "container_name i = ''task-'' @ show_nat i
   \<and> (container_name i = container_name j) = (i = j)"
  by (auto simp: container_name_def dest: show_nat_inj)

theorem container_name_unique_witness:
  "container_name 7 = ''task-7'' \<and> container_name 7 \<noteq> container_name 17"
proof -
  have "container_name 7 = ''task-'' @ show_nat 7"
    using container_name_unique [of 7 17, THEN conjunct1] .
  moreover have "container_name 7 \<noteq> container_name 17"
    using container_name_unique [of 7 17, THEN conjunct2] by simp
  ultimately show ?thesis
    by (simp add: show_nat_small digit_char_def)
qed

section \<open>The catalog\<close>

lemma catalog_ids: "map task_id INITIAL_TASKS = [1..<21]"
  by (simp add: INITIAL_TASKS_def upt_rec)

lemma catalog_groups: "map node INITIAL_TASKS = replicate 14 NODE1 @ replicate 6 NODE2"
  by (simp add: INITIAL_TASKS_def eval_nat_numeral)

lemma count_upt: "length (filter (\<lambda>x. x = i) [a..<b]) = (if a \<le> i \<and> i < b then 1 else 0)"
  by (induction b) auto

lemma catalog_one_per_id:
  "length (filter (\<lambda>t. task_id t = i) INITIAL_TASKS) = (if 1 \<le> i \<and> i \<le> 20 then 1 else 0)"
proof -
  have "length (filter (\<lambda>t. task_id t = i) INITIAL_TASKS)
          = length (filter (\<lambda>x. x = i) (map task_id INITIAL_TASKS))"
    by (simp add: filter_map comp_def)
  then show ?thesis by (simp add: catalog_ids count_upt)
qed

lemma trace_catalog:
  assumes "s \<in> set (fst (handleTaskAction srv taskId a st log))"
  shows "map catalog_record (tasks s) = map catalog_record (tasks st)"
proof (cases "docker_available st")
  case False
  with assms show ?thesis by (simp add: handleTaskAction_gated)
next
  case True
  from assms show ?thesis
    unfolding handleTaskAction_trace [OF True] Let_def
    by (auto simp: mark_starting_catalog settle_catalog)
qed

text \<open>
  Claim C2. The catalog has exactly 20 records; their ids are 1 to 20 in order, so they are
  distinct, each id from 1 to 20 has exactly one record and no other id has any; every record
  is in group NODE1 or NODE2. The catalog is a constant, and no task action changes the
  catalog fields (id, group, title, instructions) of any task in the application state.
\<close>

theorem catalog_twenty_records:
  "length INITIAL_TASKS = 20
   \<and> map task_id INITIAL_TASKS = [1..<21]
   \<and> distinct (map task_id INITIAL_TASKS)
   \<and> set (map task_id INITIAL_TASKS) = {1..20}
   \<and> (\<forall>i. length (filter (\<lambda>t. task_id t = i) INITIAL_TASKS)
              = (if 1 \<le> i \<and> i \<le> 20 then 1 else 0))
   \<and> (\<forall>t \<in> set INITIAL_TASKS. node t = NODE1 \<or> node t = NODE2)
   \<and> map node INITIAL_TASKS = replicate 14 NODE1 @ replicate 6 NODE2
   \<and> (\<forall>s \<in> set (fst (handleTaskAction srv taskId a st log)).
         map catalog_record (tasks s) = map catalog_record (tasks st))"
proof -
  have len: "length INITIAL_TASKS = 20"
    using arg_cong [OF catalog_ids, of length] by simp
  have dist: "distinct (map task_id INITIAL_TASKS)"
    by (simp add: catalog_ids)
  have ids: "set (map task_id INITIAL_TASKS) = {1..20}"
    unfolding catalog_ids by auto
  have groups: "\<forall>t \<in> set INITIAL_TASKS. node t = NODE1 \<or> node t = NODE2"
    by (auto intro: NodeGroup.exhaust)
  show ?thesis
    using len dist ids groups catalog_ids catalog_groups catalog_one_per_id trace_catalog
    by blast
qed

theorem catalog_twenty_records_witness:
  "length (filter (\<lambda>t. task_id t = 15) INITIAL_TASKS) = 1
   \<and> length (filter (\<lambda>t. task_id t = 21) INITIAL_TASKS) = 0
   \<and> map catalog_record (tasks (final (sample_app STOPPED True)
        (fst (handleTaskAction good_server 1 Start (sample_app STOPPED True) []))))
      = map catalog_record (tasks (sample_app STOPPED True))"
proof -
  have avail: "docker_available (sample_app STOPPED True)"
    by (simp add: docker_available_def sample_app_def)
  note cat = catalog_twenty_records [of good_server 1 Start "sample_app STOPPED True" "[]"]
  have "final (sample_app STOPPED True)
          (fst (handleTaskAction good_server 1 Start (sample_app STOPPED True) []))
        \<in> set (fst (handleTaskAction good_server 1 Start (sample_app STOPPED True) []))"
    unfolding handleTaskAction_trace [OF avail] by (simp add: final_def Let_def)
  with cat show ?thesis by simp
qed

section \<open>The requests the client sends\<close>

lemma snd_run_action:
  "snd (run_action srv i a log) =
     log @ [Request POST (''/api/task/'' @ show_nat i @
              (case a of Start \<Rightarrow> ''/start'' | Stop \<Rightarrow> ''/stop'' | Reset \<Rightarrow> ''/reset''
                       | Check \<Rightarrow> ''/check''))]"
  by (cases a)
     (simp_all add: run_action_def startContainer_def stopContainer_def resetContainer_def
        checkTask_def fetch_def API_def split: prod.splits)

lemma spec_interface_examples:
  "spec_interface (Request GET ''/engine/status'')"
  "spec_interface (Request GET ''/exercises'')"
  "spec_interface (Request POST ''/exercises/12/reset'')"
  "\<not> spec_interface (Request POST ''/exercises//reset'')"
  by (simp_all add: spec_interface_def is_digit_def)

text \<open>
  Claim C5, as amended. The client asks for the engine status with \<open>GET /api/docker/status\<close>,
  for the task list with \<open>GET /api/tasks\<close>, and starts, stops, resets and checks exercise
  \<open>id\<close> with \<open>POST /api/task/<id>/start\<close>, \<open>/stop\<close>, \<open>/reset\<close> and \<open>/check\<close>. Mounting the
  application sends the two GET requests; a task action sends exactly the one request of its
  kind when the engine is available, and none otherwise.
\<close>

theorem client_requests:
  "snd (getDockerStatus srv log) = log @ [Request GET ''/api/docker/status'']
   \<and> snd (getTasks srv log) = log @ [Request GET ''/api/tasks'']
   \<and> snd (startContainer srv i log) = log @ [Request POST (''/api/task/'' @ show_nat i @ ''/start'')]
   \<and> snd (stopContainer srv i log) = log @ [Request POST (''/api/task/'' @ show_nat i @ ''/stop'')]
   \<and> snd (resetContainer srv i log) = log @ [Request POST (''/api/task/'' @ show_nat i @ ''/reset'')]
   \<and> snd (checkTask srv i log) = log @ [Request POST (''/api/task/'' @ show_nat i @ ''/check'')]
   \<and> snd (init srv st log) = log @ [Request GET ''/api/docker/status'', Request GET ''/api/tasks'']
   \<and> snd (handleTaskAction srv i a st log) =
       (if docker_available st
        then log @ [Request POST (''/api/task/'' @ show_nat i @
                      (case a of Start \<Rightarrow> ''/start'' | Stop \<Rightarrow> ''/stop'' | Reset \<Rightarrow> ''/reset''
                               | Check \<Rightarrow> ''/check''))]
        else log)"
proof -
  have "snd (handleTaskAction srv i a st log) =
          (if docker_available st then snd (run_action srv i a log) else log)"
    by (simp add: handleTaskAction_def Let_def split: prod.splits)
  moreover have "snd (init srv st log)
                   = log @ [Request GET ''/api/docker/status'', Request GET ''/api/tasks'']"
    by (simp add: init_def getDockerStatus_def getTasks_def fetch_def API_def
          split: prod.splits)
  ultimately show ?thesis
    by (simp add: snd_run_action getDockerStatus_def getTasks_def startContainer_def
          stopContainer_def resetContainer_def checkTask_def fetch_def API_def)
qed

theorem client_requests_witness:
  "snd (handleTaskAction good_server 12 Stop (sample_app RUNNING True) [])
     = [Request POST ''/api/task/12/stop'']"
  using client_requests [of good_server "[]" 12 "sample_app RUNNING True" Stop]
  by (simp add: docker_available_def sample_app_def show_nat.simps digit_char_def)

text \<open>The claim as stated fails: the requests that start exercise 1 and that ask for the
  engine status go to paths that are not among the endpoints the specification names.\<close>

theorem client_requests_counterexample:
  "snd (startContainer good_server 1 []) = [Request POST ''/api/task/1/start'']
   \<and> \<not> spec_interface (Request POST ''/api/task/1/start'')
   \<and> snd (getDockerStatus good_server []) = [Request GET ''/api/docker/status'']
   \<and> \<not> spec_interface (Request GET ''/api/docker/status'')"
  by (simp add: startContainer_def getDockerStatus_def fetch_def API_def show_nat.simps
        digit_char_def spec_interface_def)

section \<open>Incoming terminal events\<close>

lemma on_terminal_event_foreign:
  "payload_taskId ev \<noteq> taskId \<Longrightarrow> on_terminal_event taskId ev x = x"
  by (cases ev) (simp_all split: option.splits)

lemma display_after_Cons:
  "display_after taskId (ev # evs) x = display_after taskId evs (on_terminal_event taskId ev x)"
  by (simp add: display_after_def)

lemma display_after_filter:
  "display_after taskId evs x =
     display_after taskId (filter (\<lambda>e. payload_taskId e = taskId) evs) x"
proof (induction evs arbitrary: x)
  case Nil
  show ?case by simp
next
  case (Cons ev evs)
  show ?case
  proof (cases "payload_taskId ev = taskId")
    case True
    then show ?thesis by (simp add: display_after_Cons Cons.IH [symmetric])
  next
    case False
    then show ?thesis
      by (simp add: display_after_Cons on_terminal_event_foreign Cons.IH [symmetric])
  qed
qed

lemma receive_foreign:
  assumes "socketRef T = Some s" and "listeners s = Some taskId"
    and "payload_taskId ev \<noteq> taskId"
  shows "receive ev T = T"
  using assms by (simp add: receive_def on_terminal_event_foreign)

lemma connect_effect_running:
  "is_running (Some t) \<Longrightarrow>
   connect_effect (Some t) T =
     T\<lparr>socketRef := Some \<lparr> connected = False, listeners = Some (task_id t) \<rparr>,
       connectedTaskIdRef := Some (task_id t), opened := opened T + 1\<rparr>"
  by (simp add: connect_effect_def Let_def)

lemma connect_effect_not_running:
  "\<not> is_running a \<Longrightarrow>
   connect_effect a T = T\<lparr>socketRef := None, connectedTaskIdRef := None\<rparr>"
  by (simp add: connect_effect_def Let_def)

text \<open>
  Claim C10. An incoming output, exit or error event whose exercise id differs from the id
  the session was connected with writes nothing: the listener leaves the display as it is,
  and so does the whole component, for any socket whose listeners carry the connected id and
  in particular for the session a running task has just opened. Hence the display after any
  sequence of events is the display after those events of the sequence that carry the
  session's own id.
\<close>

theorem foreign_events_discarded:
  "(payload_taskId ev \<noteq> taskId \<longrightarrow> on_terminal_event taskId ev x = x)
   \<and> (socketRef T = Some s \<and> listeners s = connectedTaskIdRef T
        \<and> connectedTaskIdRef T = Some taskId \<and> payload_taskId ev \<noteq> taskId
       \<longrightarrow> receive ev T = T)
   \<and> (is_running (Some t) \<and> payload_taskId ev \<noteq> task_id t
       \<longrightarrow> receive ev (on_connect (connect_effect (Some t) T))
             = on_connect (connect_effect (Some t) T))
   \<and> display_after taskId evs x =
       display_after taskId (filter (\<lambda>e. payload_taskId e = taskId) evs) x"
proof -
  have "receive ev (on_connect (connect_effect (Some t) T))
          = on_connect (connect_effect (Some t) T)"
    if "is_running (Some t)" and "payload_taskId ev \<noteq> task_id t"
    using that by (simp add: connect_effect_running on_connect_def receive_def
        on_terminal_event_foreign)
  then show ?thesis
    using display_after_filter [of taskId evs x]
    by (auto simp: on_terminal_event_foreign receive_foreign)
qed

theorem foreign_events_discarded_witness:
  "xtermRef (receive (terminal_output 2 ''intruder'')
      (on_connect (connect_effect (Some (sample_task RUNNING)) (sample_terminal None))))
     = Some []
   \<and> display_after 1
       [terminal_output 2 ''a'', terminal_output 1 ''b'', terminal_error 3 ''c''] (Some [])
     = Some [Write ''b'']"
proof -
  have run: "is_running (Some (sample_task RUNNING))"
    by (simp add: is_running_def sample_task_def)
  have "receive (terminal_output 2 ''intruder'')
          (on_connect (connect_effect (Some (sample_task RUNNING)) (sample_terminal None)))
        = on_connect (connect_effect (Some (sample_task RUNNING)) (sample_terminal None))"
    using run
      foreign_events_discarded [of "terminal_output 2 ''intruder''" 1 "Some []"
        "sample_terminal None" "the (socketRef (sample_terminal None))" "sample_task RUNNING" "[]"]
    by (simp add: sample_task_def)
  moreover have "display_after 1
       [terminal_output 2 ''a'', terminal_output 1 ''b'', terminal_error 3 ''c''] (Some [])
     = display_after 1 [terminal_output 1 ''b''] (Some [])"
    using foreign_events_discarded [of "terminal_output 2 ''a''" 1 "Some []"
        "sample_terminal None" "the (socketRef (sample_terminal None))" "sample_task RUNNING"
        "[terminal_output 2 ''a'', terminal_output 1 ''b'', terminal_error 3 ''c'']"]
    by simp
  ultimately show ?thesis
    by (simp add: connect_effect_running [OF run] on_connect_def sample_terminal_def
          display_after_def)
qed

section \<open>Attaching a terminal\<close>

lemma is_running_Some: "is_running a \<Longrightarrow> \<exists>t. a = Some t \<and> status t = RUNNING"
  by (cases a) (simp_all add: is_running_def)

lemma connect_effect_socket: "(socketRef (connect_effect a T) \<noteq> None) = is_running a"
proof (cases "is_running a")
  case True
  then obtain t where "a = Some t" using is_running_Some by blast
  with True show ?thesis by (simp add: connect_effect_running)
next
  case False
  then show ?thesis by (simp add: connect_effect_not_running)
qed

lemma connect_effect_opened:
  "opened (connect_effect a T) = opened T + (if is_running a then 1 else 0)"
proof (cases "is_running a")
  case True
  then obtain t where "a = Some t" using is_running_Some by blast
  with True show ?thesis by (simp add: connect_effect_running)
next
  case False
  then show ?thesis by (simp add: connect_effect_not_running)
qed

lemma onData_not_running:
  "\<not> is_running (activeTaskRef T) \<Longrightarrow>
   onData d T =
     T\<lparr>xtermRef := map_option (\<lambda>term. term @
          [Writeln (CRLF @ ESC @ ''[31mTerminal inactive. Please START the task container.''
                    @ ESC @ ''[0m'')]) (xtermRef T)\<rparr>"
  by (simp add: onData_def)

lemma onData_emits:
  assumes "emitted (onData d T) \<noteq> emitted T"
  shows "is_running (activeTaskRef T)
         \<and> (\<exists>s. socketRef T = Some s \<and> connected s)
         \<and> connectedTaskIdRef T = map_option task_id (activeTaskRef T)
         \<and> emitted (onData d T)
             = emitted T @ [terminal_input (task_id (the (activeTaskRef T))) d]"
proof (cases "is_running (activeTaskRef T)")
  case False
  with assms show ?thesis by (simp add: onData_not_running)
next
  case True
  then obtain t where t: "activeTaskRef T = Some t" using is_running_Some by blast
  with True assms show ?thesis
    by (auto simp: onData_def split: if_splits option.splits)
qed

lemma attach_not_running:
  "store X \<noteq> RUNNING \<Longrightarrow>
   attach store X s =
     s\<lparr>session_state := Disconnected, outbound := outbound s @ [terminal_error X ''NotRunning'']\<rparr>"
  by (simp add: attach_def)

text \<open>
  Claim C7. For an exercise that is not running, the client opens no socket, keeps none, and
  sends no attach request; input typed then is not forwarded and only a notice is shown; and
  the bridge, if an attach request does reach it, answers with an error event, returns to
  Disconnected and spawns no process. Conversely the client has a socket after the connection
  effect exactly when the task is running, input is forwarded only for a running task over a
  connected socket of the same id, and the bridge spawns a process only for a running
  exercise.
\<close>

theorem attach_requires_running:
  "(\<not> is_running a \<longrightarrow>
      socketRef (connect_effect a T) = None
      \<and> connectedTaskIdRef (connect_effect a T) = None
      \<and> opened (connect_effect a T) = opened T
      \<and> emitted (on_connect (connect_effect a T)) = emitted T)
   \<and> (\<not> is_running (activeTaskRef U) \<longrightarrow>
        emitted (onData d U) = emitted U
        \<and> socketRef (onData d U) = socketRef U
        \<and> opened (onData d U) = opened U
        \<and> xtermRef (onData d U) = map_option (\<lambda>term. term @
             [Writeln (CRLF @ ESC @ ''[31mTerminal inactive. Please START the task container.''
                       @ ESC @ ''[0m'')]) (xtermRef U))
   \<and> (\<not> is_running a \<longrightarrow>
        socketRef (rerender a T) = None
        \<and> opened (rerender a T) = opened T
        \<and> emitted (onData d (rerender a T)) = emitted T)
   \<and> (store X \<noteq> RUNNING \<longrightarrow>
        session_state (attach store X s) = Disconnected
        \<and> outbound (attach store X s) = outbound s @ [terminal_error X ''NotRunning'']
        \<and> process (attach store X s) = process s)
   \<and> (socketRef (connect_effect a T) \<noteq> None) = is_running a
   \<and> opened (connect_effect a T) = opened T + (if is_running a then 1 else 0)
   \<and> (emitted (onData d U) \<noteq> emitted U \<longrightarrow>
        is_running (activeTaskRef U)
        \<and> (\<exists>s. socketRef U = Some s \<and> connected s)
        \<and> connectedTaskIdRef U = map_option task_id (activeTaskRef U))
   \<and> (process (attach store X s) \<noteq> process s \<longrightarrow> store X = RUNNING)"
proof -
  have client: "socketRef (connect_effect a T) = None
      \<and> connectedTaskIdRef (connect_effect a T) = None
      \<and> opened (connect_effect a T) = opened T
      \<and> emitted (on_connect (connect_effect a T)) = emitted T"
    if "\<not> is_running a"
    using that by (simp add: connect_effect_not_running on_connect_def)
  have input: "emitted (onData d U) = emitted U
        \<and> socketRef (onData d U) = socketRef U
        \<and> opened (onData d U) = opened U
        \<and> xtermRef (onData d U) = map_option (\<lambda>term. term @
             [Writeln (CRLF @ ESC @ ''[31mTerminal inactive. Please START the task container.''
                       @ ESC @ ''[0m'')]) (xtermRef U)"
    if "\<not> is_running (activeTaskRef U)"
    using that by (simp add: onData_not_running)
  have bridge: "session_state (attach store X s) = Disconnected
        \<and> outbound (attach store X s) = outbound s @ [terminal_error X ''NotRunning'']
        \<and> process (attach store X s) = process s"
    if "store X \<noteq> RUNNING"
    using that by (simp add: attach_not_running)
  have spawn: "store X = RUNNING" if "process (attach store X s) \<noteq> process s"
    using that bridge by blast
  have render: "socketRef (rerender a T) = None
        \<and> opened (rerender a T) = opened T
        \<and> emitted (onData d (rerender a T)) = emitted T"
    if "\<not> is_running a"
    using that
    by (simp add: rerender_def connect_effect_not_running connect_cleanup_def sync_active_def
          onData_not_running)
  show ?thesis
    using client input render bridge spawn connect_effect_socket [of a T]
      connect_effect_opened [of a T] onData_emits [of d U]
    by blast
qed

theorem attach_requires_running_witness:
  "socketRef (connect_effect (Some (sample_task STOPPED)) (sample_terminal None)) = None
   \<and> opened (connect_effect (Some (sample_task STOPPED)) (sample_terminal None)) = 0
   \<and> emitted (on_connect (connect_effect (Some (sample_task STOPPED)) (sample_terminal None)))
       = []
   \<and> emitted (onData ''ls'' (sample_terminal (Some (sample_task IDLE)))) = []
   \<and> emitted (onData ''ls'' (rerender (Some (sample_task STOPPED)) (sample_terminal None))) = []
   \<and> outbound (attach (\<lambda>i. IDLE) 1
        \<lparr> session_state = Connecting, process = None, outbound = [] \<rparr>)
       = [terminal_error 1 ''NotRunning'']
   \<and> process (attach (\<lambda>i. IDLE) 1
        \<lparr> session_state = Connecting, process = None, outbound = [] \<rparr>) = None
   \<and> socketRef (connect_effect (Some (sample_task RUNNING)) (sample_terminal None)) \<noteq> None"
proof -
  have idle: "\<not> is_running (Some (sample_task IDLE))"
    and stopped: "\<not> is_running (Some (sample_task STOPPED))"
    and running: "is_running (Some (sample_task RUNNING))"
    by (simp_all add: is_running_def sample_task_def)
  have ref: "activeTaskRef (sample_terminal (Some (sample_task IDLE))) = Some (sample_task IDLE)"
    and fresh: "opened (sample_terminal None) = 0" "emitted (sample_terminal None) = []"
      "emitted (sample_terminal (Some (sample_task IDLE))) = []"
    by (simp_all add: sample_terminal_def)
  show ?thesis
    using attach_requires_running [of "Some (sample_task STOPPED)" "sample_terminal None"
        "sample_terminal (Some (sample_task IDLE))" "''ls''" "\<lambda>i. IDLE" 1
        "\<lparr> session_state = Connecting, process = None, outbound = [] \<rparr>"]
      attach_requires_running [of "Some (sample_task RUNNING)" "sample_terminal None"
        "sample_terminal None" "''ls''" "\<lambda>i. IDLE" 1
        "\<lparr> session_state = Connecting, process = None, outbound = [] \<rparr>"]
    by (simp add: idle stopped running ref fresh)
qed

section \<open>Check runs\<close>

lemma list_all_length_filter: "list_all P xs = (length (filter P xs) = length xs)"
proof (induction xs)
  case Nil
  show ?case by simp
next
  case (Cons a xs)
  have "length (filter P xs) \<noteq> Suc (length xs)"
    using length_filter_le [of P xs] by linarith
  with Cons show ?case by simp
qed

text \<open>
  Claim C1. For a check run of an exercise with a registered checker and a running container,
  with \<open>n\<close> probes of which \<open>k\<close> passed, the status is PASS iff \<open>k = n\<close>, that is iff every
  probe passed, and FAIL otherwise; the summary is exactly \<open>k/n checks passed.\<close>; there is one
  detail per probe, in the declared order of the probes.
\<close>

theorem runChecks_aggregation:
  assumes "registry taskId = Some probes" and "running taskId"
  shows "((result_status (runChecks registry running container now taskId) = PASS)
            = (length (filter passed (map (run_check container) probes)) = length probes))
   \<and> ((result_status (runChecks registry running container now taskId) = PASS)
            = (\<forall>p \<in> set probes. passed (run_check container p)))
   \<and> (result_status (runChecks registry running container now taskId) \<noteq> PASS
         \<longrightarrow> result_status (runChecks registry running container now taskId) = FAIL)
   \<and> summary (runChecks registry running container now taskId)
       = show_nat (length (filter passed (map (run_check container) probes))) @ ''/''
         @ show_nat (length probes) @ '' checks passed.''
   \<and> details (runChecks registry running container now taskId)
       = map (run_check container) probes
   \<and> length (details (runChecks registry running container now taskId)) = length probes
   \<and> map name (details (runChecks registry running container now taskId))
       = map probe_name probes
   \<and> timestamp (runChecks registry running container now taskId) = now"
proof -
  define ds where "ds = map (run_check container) probes"
  have name: "name (run_check container p) = probe_name p" for p
    by (simp add: run_check_def split: probe_outcome.splits)
  have res: "runChecks registry running container now taskId = aggregate now ds"
    using assms by (simp add: runChecks_def ds_def)
  have pass: "(result_status (aggregate now ds) = PASS) = list_all passed ds"
    and fail: "result_status (aggregate now ds) \<noteq> PASS
                 \<longrightarrow> result_status (aggregate now ds) = FAIL"
    and rest: "summary (aggregate now ds)
                 = show_nat (length (filter passed ds)) @ ''/'' @ show_nat (length ds)
                   @ '' checks passed.''"
      "details (aggregate now ds) = ds" "timestamp (aggregate now ds) = now"
    by (simp_all add: aggregate_def)
  have count: "list_all passed ds = (length (filter passed ds) = length probes)"
    by (simp add: list_all_length_filter ds_def)
  have every: "list_all passed ds = (\<forall>p \<in> set probes. passed (run_check container p))"
    by (simp add: list_all_iff ds_def)
  have names: "map name ds = map probe_name probes"
    by (simp add: ds_def name)
  have len: "length ds = length probes"
    by (simp add: ds_def)
  show ?thesis
    unfolding res ds_def [symmetric] rest
    using pass fail count every names len by metis
qed

theorem runChecks_aggregation_witness:
  "result_status (runChecks (\<lambda>i. Some sample_probes) (\<lambda>i. True) () ''now'' 1) = FAIL
   \<and> summary (runChecks (\<lambda>i. Some sample_probes) (\<lambda>i. True) () ''now'' 1)
       = ''1/2 checks passed.''
   \<and> map name (details (runChecks (\<lambda>i. Some sample_probes) (\<lambda>i. True) () ''now'' 1))
       = [''Hostname'', ''IP configuration'']
   \<and> map passed (details (runChecks (\<lambda>i. Some sample_probes) (\<lambda>i. True) () ''now'' 1))
       = [True, False]"
  using runChecks_aggregation [of "\<lambda>i. Some sample_probes" 1 sample_probes "\<lambda>i. True" "()" "''now''"]
  by (simp add: sample_probes_def run_check_def show_nat_small digit_char_def)

end
